theory Spec2Isabelle
  imports Main "HOL-Library.Multiset"
begin

section \<open>The binding filter of opencascade.js\<close>

text \<open>
  The module \<^verbatim>\<open>src/filter/filterMethodOrProperties.py\<close> holds one function,
  \<^verbatim>\<open>filterMethodOrProperty(theClass, methodOrProperty)\<close>. Both arguments are libclang
  cursors. The function reads a handful of their attributes, compares them with
  string literals in a flat sequence of \<^verbatim>\<open>if ...: return False\<close> statements, prints
  one line in a single branch, and ends with \<^verbatim>\<open>return True\<close>.
\<close>

subsection \<open>Data model: the attributes read from a cursor\<close>

text \<open>
  \<^verbatim>\<open>clang.cindex.AccessSpecifier\<close> has five values; the function compares with
  \<^verbatim>\<open>PUBLIC\<close> only.
\<close>

datatype AccessSpecifier = INVALID | PUBLIC | PROTECTED | PRIVATE | NONE

text \<open>
  \<^verbatim>\<open>clang.cindex.CursorKind\<close> has a few hundred values; the function compares with
  \<^verbatim>\<open>USING_DECLARATION\<close> only. The kinds a class member usually has are listed; a
  kind that is not listed is \<open>OTHER_KIND\<close> with its numeric id.
\<close>

datatype CursorKind =
    USING_DECLARATION
  | CXX_METHOD
  | FIELD_DECL
  | VAR_DECL
  | CONSTRUCTOR
  | DESTRUCTOR
  | CONVERSION_FUNCTION
  | FUNCTION_TEMPLATE
  | OTHER_KIND nat

text \<open>A \<^verbatim>\<open>clang.cindex.Type\<close>, of which only \<^verbatim>\<open>.spelling\<close> is read.\<close>

record ClangType =
  type_spelling :: string

text \<open>
  A \<^verbatim>\<open>clang.cindex.Cursor\<close>: \<^verbatim>\<open>.spelling\<close>, \<^verbatim>\<open>.displayname\<close>, \<^verbatim>\<open>.kind\<close>,
  \<^verbatim>\<open>.access_specifier\<close>, \<^verbatim>\<open>.type\<close>, \<^verbatim>\<open>.result_type\<close> and the value
  \<^verbatim>\<open>.is_static_method()\<close> returns. The field \<open>ctype\<close> is the attribute \<^verbatim>\<open>.type\<close>.
\<close>

record Cursor =
  spelling :: string
  displayname :: string
  kind :: CursorKind
  access_specifier :: AccessSpecifier
  ctype :: ClangType
  result_type :: ClangType
  is_static_method :: bool

subsection \<open>Python's string operations\<close>

text \<open>\<^verbatim>\<open>s.startswith(p)\<close>\<close>

fun startswith :: "string \<Rightarrow> string \<Rightarrow> bool" where
  "startswith s [] = True"
| "startswith [] (p # ps) = False"
| "startswith (c # cs) (p # ps) = (c = p \<and> startswith cs ps)"

text \<open>\<^verbatim>\<open>sub in s\<close> for two strings: \<open>sub\<close> occurs in \<open>s\<close> as a contiguous run.\<close>

fun str_in :: "string \<Rightarrow> string \<Rightarrow> bool" where
  "str_in sub [] = (sub = [])"
| "str_in sub (c # cs) = (startswith (c # cs) sub \<or> str_in sub cs)"

subsection \<open>The function\<close>

text \<open>
  Standard output is a list of lines; \<^verbatim>\<open>print\<close> appends one. The function takes the
  output written so far and returns its result with the output afterwards.
\<close>

definition using_declaration_message :: "Cursor \<Rightarrow> Cursor \<Rightarrow> string" where
  "using_declaration_message theClass methodOrProperty =
     ''Using declarations are not supported! ('' @ spelling theClass @ '', ''
       @ spelling methodOrProperty @ '')''"

definition filterMethodOrProperty :: "Cursor \<Rightarrow> Cursor \<Rightarrow> string list \<Rightarrow> bool \<times> string list" where
  "filterMethodOrProperty theClass methodOrProperty out =
    (if (spelling theClass = ''MeshVS_DataSource'' \<and> spelling methodOrProperty = ''GetGeom'') \<or>
        (spelling theClass = ''MeshVS_DataSource'' \<and> spelling methodOrProperty = ''GetGeomType'') \<or>
        (spelling theClass = ''MeshVS_DeformedDataSource'' \<and> spelling methodOrProperty = ''GetGeom'') \<or>
        (spelling theClass = ''MeshVS_DeformedDataSource'' \<and> spelling methodOrProperty = ''GetGeomType'') \<or>
        (spelling theClass = ''Interface_STAT'' \<and> spelling methodOrProperty = ''Description'') \<or>
        (spelling theClass = ''Interface_STAT'' \<and> spelling methodOrProperty = ''Phase'')
     then (False, out)
     else if
        (spelling theClass = ''VrmlData_Node'' \<and> spelling methodOrProperty = ''Scene'') \<or>
        (spelling theClass = ''Font_FTFont'' \<and> spelling methodOrProperty = ''GlyphImage'') \<or>
        (spelling theClass = ''LDOMString'' \<and> spelling methodOrProperty = ''getOwnerDocument'') \<or>
        (spelling theClass = ''LDOM_MemManager'' \<and> spelling methodOrProperty = ''Self'') \<or>
        (spelling theClass = ''Aspect_VKeySet'' \<and> spelling methodOrProperty = ''Mutex'') \<or>
        (spelling theClass = ''Image_VideoRecorder'' \<and> spelling methodOrProperty = ''ChangeFrame'') \<or>
        (spelling theClass = ''StdPrs_BRepFont'' \<and> spelling methodOrProperty = ''Mutex'') \<or>
        (spelling theClass = ''AdvApp2Var_Network'' \<and> spelling methodOrProperty = ''ChangePatch'') \<or>
        (spelling theClass = ''AdvApp2Var_Framework'' \<and> spelling methodOrProperty = ''IsoU'') \<or>
        (spelling theClass = ''LDOM_Node'' \<and> spelling methodOrProperty = ''getOwnerDocument'') \<or>
        (spelling theClass = ''AdvApp2Var_Network'' \<and> spelling methodOrProperty = ''Patch'') \<or>
        (spelling theClass = ''AdvApp2Var_Framework'' \<and> spelling methodOrProperty = ''IsoV'')
     then (False, out)
     else if
        (spelling theClass = ''Resource_Unicode'') \<or>
        (spelling theClass = ''NCollection_DataMap'' \<and> spelling methodOrProperty = ''Find'') \<or>
        (spelling theClass = ''OSD_Thread'' \<and> spelling methodOrProperty = ''Wait'') \<or>
        (spelling theClass = ''TCollection_ExtendedString'' \<and> spelling methodOrProperty = ''ToUTF8CString'') \<or>
        (spelling theClass = ''Message'' \<and> spelling methodOrProperty = ''ToOSDMetric'') \<or>
        (spelling theClass = ''OSD'' \<and> spelling methodOrProperty = ''RealToCString'') \<or>
        (spelling theClass = ''XmlObjMgt'' \<and> spelling methodOrProperty = ''GetInteger'') \<or>
        (spelling theClass = ''NCollection_IndexedDataMap'' \<and> spelling methodOrProperty = ''FindFromKey'') \<or>
        (spelling theClass = ''XmlObjMgt'' \<and> spelling methodOrProperty = ''GetReal'') \<or>
        (spelling theClass = ''BOPAlgo_Tools'' \<and> spelling methodOrProperty = ''PerformCommonBlocks'') \<or>
        (spelling theClass = ''Transfer_Finder'' \<and> spelling methodOrProperty = ''GetStringAttribute'') \<or>
        (spelling theClass = ''MoniTool_TypedValue'' \<and> spelling methodOrProperty = ''Internals'') \<or>
        (spelling theClass = ''MoniTool_AttrList'' \<and> spelling methodOrProperty = ''GetStringAttribute'') \<or>
        (spelling theClass = ''MoniTool_CaseData'' \<and> spelling methodOrProperty = ''Text'') \<or>
        (spelling theClass = ''StepData_StepReaderData'' \<and> spelling methodOrProperty = ''ReadEnumParam'') \<or>
        (spelling theClass = ''XSControl_Vars'') \<or>
        (spelling theClass = ''MeshVS_DataSource'' \<and> spelling methodOrProperty = ''GetGroup'')
     then (False, out)
     else if spelling theClass = ''Graphic3d_GraduatedTrihedron''
          \<and> spelling methodOrProperty = ''CubicAxesCallback''
     then (False, out)
     else if type_spelling (ctype theClass) = ''MeshVS_TwoColors''
     then (False, out)
     else if spelling theClass = ''Graphic3d_CStructure'' \<and>
          spelling methodOrProperty \<in> set [
            ''IsInfinite'',
            ''stick'',
            ''highlight'',
            ''visible'',
            ''HLRValidation'',
            ''IsForHighlight'',
            ''IsMutable'',
            ''Is2dText'']
     then (False, out)
     else if access_specifier methodOrProperty = PUBLIC \<and> kind methodOrProperty = USING_DECLARATION
     then (False, out @ [using_declaration_message theClass methodOrProperty])
     else if startswith (type_spelling (result_type methodOrProperty)) ''Standard_OStream'' \<or>
          type_spelling (ctype methodOrProperty) = ''std::ifstream''
     then (False, out)
     else if spelling theClass = ''AIS_ViewController'' \<and>
          (spelling methodOrProperty = ''Keys'' \<or> spelling methodOrProperty = ''ChangeKeys'')
     then (False, out)
     else if spelling theClass = ''BRepClass3d_SolidExplorer'' \<and> spelling methodOrProperty = ''GetTree''
     then (False, out)
     else if spelling theClass = ''NCollection_Lerp'' \<and> spelling methodOrProperty = ''Interpolate''
          \<and> is_static_method methodOrProperty
     then (False, out)
     else if spelling theClass \<in> set [''NCollection_Sequence'', ''NCollection_List'']
          \<and> str_in ''::Iterator'' (displayname methodOrProperty)
     then (False, out)
     else if spelling theClass = ''Geom2dHatch_Hatcher'' \<and> spelling methodOrProperty = ''IsDone''
     then (False, out)
     else if spelling theClass = ''Geom2dAPI_Interpolate'' \<and> spelling methodOrProperty = ''ClearTangents''
     then (False, out)
     else if spelling theClass = ''Geom2dGcc_Lin2dTanObl'' \<and> spelling methodOrProperty = ''IsParallel2''
     then (False, out)
     else if spelling theClass = ''Geom2dInt_Geom2dCurveTool'' \<and> spelling methodOrProperty = ''IsComposite''
     then (False, out)
     else if spelling theClass = ''Geom2dInt_TheCurveLocatorOfTheProjPCurOfGInter''
          \<and> spelling methodOrProperty = ''Locate''
     then (False, out)
     else if spelling theClass = ''GeomInt_IntSS'' \<and> spelling methodOrProperty = ''SetTolFixTangents''
     then (False, out)
     else if spelling theClass = ''GeomInt_IntSS'' \<and> spelling methodOrProperty = ''TolFixTangents''
     then (False, out)
     else if spelling theClass = ''GeomAPI_Interpolate'' \<and> spelling methodOrProperty = ''ClearTangents''
     then (False, out)
     else if spelling theClass = ''GeomFill_FunctionGuide'' \<and> spelling methodOrProperty = ''Deriv2T''
     then (False, out)
     else if spelling theClass = ''GeomFill_SweepSectionGenerator'' \<and> spelling methodOrProperty = ''Init''
     then (False, out)
     else if spelling theClass = ''GeomInt_ResConstraintOfMyGradientOfTheComputeLineBezierOfWLApprox''
          \<and> spelling methodOrProperty = ''Error''
     then (False, out)
     else if spelling theClass = ''GeomInt_ResConstraintOfMyGradientbisOfTheComputeLineOfWLApprox''
          \<and> spelling methodOrProperty = ''Error''
     then (False, out)
     else if spelling theClass = ''GeomInt_WLApprox'' \<and> spelling methodOrProperty = ''Perform''
     then (False, out)
     else (True, out))"

subsection \<open>The rule table\<close>

text \<open>
  The same conditions as a table of rules, in the order of the source. A rule is a
  predicate on the class and the member; the exact (class, member) pairs of a rule are a
  list of pairs of spellings.
\<close>

type_synonym exclusion_rule = "Cursor \<Rightarrow> Cursor \<Rightarrow> bool"

definition named :: "(string \<times> string) list \<Rightarrow> exclusion_rule" where
  "named pairs theClass methodOrProperty =
     ((spelling theClass, spelling methodOrProperty) \<in> set pairs)"

text \<open>error: no matching function for call to object of type \<^verbatim>\<open>std::function<...>\<close>\<close>

definition signature_mismatch_pairs :: "(string \<times> string) list" where
  "signature_mismatch_pairs =
    [(''MeshVS_DataSource'', ''GetGeom''),
     (''MeshVS_DataSource'', ''GetGeomType''),
     (''MeshVS_DeformedDataSource'', ''GetGeom''),
     (''MeshVS_DeformedDataSource'', ''GetGeomType''),
     (''Interface_STAT'', ''Description''),
     (''Interface_STAT'', ''Phase'')]"

text \<open>error: calling a private constructor of class 'X'\<close>

definition private_constructor_pairs :: "(string \<times> string) list" where
  "private_constructor_pairs =
    [(''VrmlData_Node'', ''Scene''),
     (''Font_FTFont'', ''GlyphImage''),
     (''LDOMString'', ''getOwnerDocument''),
     (''LDOM_MemManager'', ''Self''),
     (''Aspect_VKeySet'', ''Mutex''),
     (''Image_VideoRecorder'', ''ChangeFrame''),
     (''StdPrs_BRepFont'', ''Mutex''),
     (''AdvApp2Var_Network'', ''ChangePatch''),
     (''AdvApp2Var_Framework'', ''IsoU''),
     (''LDOM_Node'', ''getOwnerDocument''),
     (''AdvApp2Var_Network'', ''Patch''),
     (''AdvApp2Var_Framework'', ''IsoV'')]"

text \<open>
  error: non-const lvalue reference to type 'X' cannot bind to a temporary of type 'X'.
  Two entries of the source name a class only.
\<close>

definition nonconst_reference_pairs :: "(string \<times> string) list" where
  "nonconst_reference_pairs =
    [(''NCollection_DataMap'', ''Find''),
     (''OSD_Thread'', ''Wait''),
     (''TCollection_ExtendedString'', ''ToUTF8CString''),
     (''Message'', ''ToOSDMetric''),
     (''OSD'', ''RealToCString''),
     (''XmlObjMgt'', ''GetInteger''),
     (''NCollection_IndexedDataMap'', ''FindFromKey''),
     (''XmlObjMgt'', ''GetReal''),
     (''BOPAlgo_Tools'', ''PerformCommonBlocks''),
     (''Transfer_Finder'', ''GetStringAttribute''),
     (''MoniTool_TypedValue'', ''Internals''),
     (''MoniTool_AttrList'', ''GetStringAttribute''),
     (''MoniTool_CaseData'', ''Text''),
     (''StepData_StepReaderData'', ''ReadEnumParam''),
     (''MeshVS_DataSource'', ''GetGroup'')]"

definition nonconst_reference_classes :: "string list" where
  "nonconst_reference_classes = [''Resource_Unicode'', ''XSControl_Vars'']"

text \<open>error: static_assert failed ... "Implicitly binding raw pointers is illegal."\<close>

definition raw_pointer_pairs :: "(string \<times> string) list" where
  "raw_pointer_pairs = [(''Graphic3d_GraduatedTrihedron'', ''CubicAxesCallback'')]"

text \<open>error: address of bit-field requested\<close>

definition bit_field_members :: "string list" where
  "bit_field_members =
    [''IsInfinite'', ''stick'', ''highlight'', ''visible'',
     ''HLRValidation'', ''IsForHighlight'', ''IsMutable'', ''Is2dText'']"

text \<open>
  error: call to implicitly-deleted copy constructor; error: private copy constructor
  used in this function
\<close>

definition copy_constructor_pairs :: "(string \<times> string) list" where
  "copy_constructor_pairs =
    [(''AIS_ViewController'', ''Keys''),
     (''AIS_ViewController'', ''ChangeKeys''),
     (''BRepClass3d_SolidExplorer'', ''GetTree'')]"

text \<open>The template specialisation \<^verbatim>\<open>gp_TrsfNLerp\<close> of \<^verbatim>\<open>NCollection_Lerp\<close>.\<close>

definition lerp_pairs :: "(string \<times> string) list" where
  "lerp_pairs = [(''NCollection_Lerp'', ''Interpolate'')]"

text \<open>causes extreme memory growth which fails the build\<close>

definition iterator_classes :: "string list" where
  "iterator_classes = [''NCollection_Sequence'', ''NCollection_List'']"

text \<open>Creates error during instantiation: bad export type ... undefined\<close>

definition undefined_symbol_pairs :: "(string \<times> string) list" where
  "undefined_symbol_pairs =
    [(''Geom2dHatch_Hatcher'', ''IsDone''),
     (''Geom2dAPI_Interpolate'', ''ClearTangents''),
     (''Geom2dGcc_Lin2dTanObl'', ''IsParallel2''),
     (''Geom2dInt_Geom2dCurveTool'', ''IsComposite''),
     (''Geom2dInt_TheCurveLocatorOfTheProjPCurOfGInter'', ''Locate''),
     (''GeomInt_IntSS'', ''SetTolFixTangents''),
     (''GeomInt_IntSS'', ''TolFixTangents''),
     (''GeomAPI_Interpolate'', ''ClearTangents''),
     (''GeomFill_FunctionGuide'', ''Deriv2T''),
     (''GeomFill_SweepSectionGenerator'', ''Init''),
     (''GeomInt_ResConstraintOfMyGradientOfTheComputeLineBezierOfWLApprox'', ''Error''),
     (''GeomInt_ResConstraintOfMyGradientbisOfTheComputeLineOfWLApprox'', ''Error''),
     (''GeomInt_WLApprox'', ''Perform'')]"

text \<open>The eleven rule categories.\<close>

definition signature_mismatch :: exclusion_rule where
  "signature_mismatch = named signature_mismatch_pairs"

definition private_constructor :: exclusion_rule where
  "private_constructor = named private_constructor_pairs"

definition nonconst_reference :: exclusion_rule where
  "nonconst_reference theClass methodOrProperty =
     (spelling theClass \<in> set nonconst_reference_classes \<or>
      named nonconst_reference_pairs theClass methodOrProperty)"

definition raw_pointer_callback :: exclusion_rule where
  "raw_pointer_callback = named raw_pointer_pairs"

definition bit_field_class :: "Cursor \<Rightarrow> bool" where
  "bit_field_class theClass = (type_spelling (ctype theClass) = ''MeshVS_TwoColors'')"

definition bit_field :: exclusion_rule where
  "bit_field theClass methodOrProperty =
     (bit_field_class theClass \<or>
      (spelling theClass = ''Graphic3d_CStructure'' \<and>
       spelling methodOrProperty \<in> set bit_field_members))"

definition public_using_declaration :: "Cursor \<Rightarrow> bool" where
  "public_using_declaration methodOrProperty =
     (access_specifier methodOrProperty = PUBLIC \<and> kind methodOrProperty = USING_DECLARATION)"

definition using_declaration :: exclusion_rule where
  "using_declaration theClass methodOrProperty = public_using_declaration methodOrProperty"

definition stream_member :: "Cursor \<Rightarrow> bool" where
  "stream_member methodOrProperty =
     (startswith (type_spelling (result_type methodOrProperty)) ''Standard_OStream'' \<or>
      type_spelling (ctype methodOrProperty) = ''std::ifstream'')"

definition stream_type :: exclusion_rule where
  "stream_type theClass methodOrProperty = stream_member methodOrProperty"

definition copy_constructor :: exclusion_rule where
  "copy_constructor = named copy_constructor_pairs"

definition lerp_interpolate :: exclusion_rule where
  "lerp_interpolate theClass methodOrProperty =
     (named lerp_pairs theClass methodOrProperty \<and> is_static_method methodOrProperty)"

definition container_iterator :: exclusion_rule where
  "container_iterator theClass methodOrProperty =
     (spelling theClass \<in> set iterator_classes \<and>
      str_in ''::Iterator'' (displayname methodOrProperty))"

definition undefined_symbol :: exclusion_rule where
  "undefined_symbol = named undefined_symbol_pairs"

definition rule_categories :: "exclusion_rule list" where
  "rule_categories =
    [signature_mismatch, private_constructor, nonconst_reference, raw_pointer_callback,
     bit_field, using_declaration, stream_type, copy_constructor, lerp_interpolate,
     container_iterator, undefined_symbol]"

text \<open>
  The evaluation that the specification describes, for any ordered list of exclusion
  rules: the first rule that matches rejects, and a member that no rule matches is
  accepted. The function itself is \<open>filterMethodOrProperty\<close> above; \<open>admit_by\<close> is what
  it is compared with when the order of the rules is changed.
\<close>

fun admit_by :: "exclusion_rule list \<Rightarrow> Cursor \<Rightarrow> Cursor \<Rightarrow> bool" where
  "admit_by [] theClass methodOrProperty = True"
| "admit_by (r # rs) theClass methodOrProperty =
     (if r theClass methodOrProperty then False else admit_by rs theClass methodOrProperty)"

definition excluded :: exclusion_rule where
  "excluded theClass methodOrProperty =
     (\<exists>r \<in> set rule_categories. r theClass methodOrProperty)"

definition exact_pairs :: "(string \<times> string) list" where
  "exact_pairs =
     signature_mismatch_pairs @ private_constructor_pairs @ nonconst_reference_pairs @
     raw_pointer_pairs @ copy_constructor_pairs @ lerp_pairs @ undefined_symbol_pairs"

subsection \<open>Example cursors\<close>

text \<open>
  The cursor of a class declaration (libclang's kind 4), of a public method with a given
  result type, and of a public using-declaration.
\<close>

definition example_class :: "string \<Rightarrow> Cursor" where
  "example_class name =
     \<lparr>spelling = name, displayname = name, kind = OTHER_KIND 4, access_specifier = INVALID,
      ctype = \<lparr>type_spelling = name\<rparr>, result_type = \<lparr>type_spelling = []\<rparr>,
      is_static_method = False\<rparr>"

definition example_method :: "string \<Rightarrow> string \<Rightarrow> bool \<Rightarrow> Cursor" where
  "example_method name rtype static =
     \<lparr>spelling = name, displayname = name @ ''()'', kind = CXX_METHOD,
      access_specifier = PUBLIC, ctype = \<lparr>type_spelling = rtype @ '' ()''\<rparr>,
      result_type = \<lparr>type_spelling = rtype\<rparr>, is_static_method = static\<rparr>"

definition example_using :: "string \<Rightarrow> Cursor" where
  "example_using name =
     \<lparr>spelling = name, displayname = name, kind = USING_DECLARATION,
      access_specifier = PUBLIC, ctype = \<lparr>type_spelling = []\<rparr>,
      result_type = \<lparr>type_spelling = []\<rparr>, is_static_method = False\<rparr>"

section \<open>Properties\<close>

subsection \<open>The string operations\<close>

lemma startswith_iff: "startswith s p \<longleftrightarrow> (\<exists>t. s = p @ t)"
  by (induction s p rule: startswith.induct) auto

lemma str_in_iff: "str_in sub s \<longleftrightarrow> (\<exists>pre post. s = pre @ sub @ post)"
proof (induction s)
  case Nil
  then show ?case by auto
next
  case (Cons c cs)
  show ?case
  proof
    assume "str_in sub (c # cs)"
    then consider "startswith (c # cs) sub" | "str_in sub cs" by auto
    then show "\<exists>pre post. c # cs = pre @ sub @ post"
    proof cases
      case 1
      then obtain t where "c # cs = sub @ t" by (auto simp: startswith_iff)
      then have "c # cs = [] @ sub @ t" by simp
      then show ?thesis by blast
    next
      case 2
      then obtain pre post where "cs = pre @ sub @ post" using Cons.IH by blast
      then have "c # cs = (c # pre) @ sub @ post" by simp
      then show ?thesis by blast
    qed
  next
    assume "\<exists>pre post. c # cs = pre @ sub @ post"
    then obtain pre post where e: "c # cs = pre @ sub @ post" by blast
    show "str_in sub (c # cs)"
    proof (cases pre)
      case Nil
      with e have "startswith (c # cs) sub" by (auto simp: startswith_iff)
      then show ?thesis by simp
    next
      case (Cons a pre')
      with e have "cs = pre' @ sub @ post" by simp
      then have "str_in sub cs" using Cons.IH by blast
      then show ?thesis by simp
    qed
  qed
qed

subsection \<open>Each rule is the condition of the source\<close>

lemma signature_mismatch_src:
  "signature_mismatch c m =
    ((spelling c = ''MeshVS_DataSource'' \<and> spelling m = ''GetGeom'') \<or>
     (spelling c = ''MeshVS_DataSource'' \<and> spelling m = ''GetGeomType'') \<or>
     (spelling c = ''MeshVS_DeformedDataSource'' \<and> spelling m = ''GetGeom'') \<or>
     (spelling c = ''MeshVS_DeformedDataSource'' \<and> spelling m = ''GetGeomType'') \<or>
     (spelling c = ''Interface_STAT'' \<and> spelling m = ''Description'') \<or>
     (spelling c = ''Interface_STAT'' \<and> spelling m = ''Phase''))"
  unfolding signature_mismatch_def signature_mismatch_pairs_def named_def
  by (simp only: list.set insert_iff empty_iff prod.inject simp_thms)

lemma private_constructor_src:
  "private_constructor c m =
    ((spelling c = ''VrmlData_Node'' \<and> spelling m = ''Scene'') \<or>
     (spelling c = ''Font_FTFont'' \<and> spelling m = ''GlyphImage'') \<or>
     (spelling c = ''LDOMString'' \<and> spelling m = ''getOwnerDocument'') \<or>
     (spelling c = ''LDOM_MemManager'' \<and> spelling m = ''Self'') \<or>
     (spelling c = ''Aspect_VKeySet'' \<and> spelling m = ''Mutex'') \<or>
     (spelling c = ''Image_VideoRecorder'' \<and> spelling m = ''ChangeFrame'') \<or>
     (spelling c = ''StdPrs_BRepFont'' \<and> spelling m = ''Mutex'') \<or>
     (spelling c = ''AdvApp2Var_Network'' \<and> spelling m = ''ChangePatch'') \<or>
     (spelling c = ''AdvApp2Var_Framework'' \<and> spelling m = ''IsoU'') \<or>
     (spelling c = ''LDOM_Node'' \<and> spelling m = ''getOwnerDocument'') \<or>
     (spelling c = ''AdvApp2Var_Network'' \<and> spelling m = ''Patch'') \<or>
     (spelling c = ''AdvApp2Var_Framework'' \<and> spelling m = ''IsoV''))"
  unfolding private_constructor_def private_constructor_pairs_def named_def
  by (simp only: list.set insert_iff empty_iff prod.inject simp_thms)

lemma nonconst_reference_src:
  "nonconst_reference c m =
    ((spelling c = ''Resource_Unicode'') \<or>
     (spelling c = ''NCollection_DataMap'' \<and> spelling m = ''Find'') \<or>
     (spelling c = ''OSD_Thread'' \<and> spelling m = ''Wait'') \<or>
     (spelling c = ''TCollection_ExtendedString'' \<and> spelling m = ''ToUTF8CString'') \<or>
     (spelling c = ''Message'' \<and> spelling m = ''ToOSDMetric'') \<or>
     (spelling c = ''OSD'' \<and> spelling m = ''RealToCString'') \<or>
     (spelling c = ''XmlObjMgt'' \<and> spelling m = ''GetInteger'') \<or>
     (spelling c = ''NCollection_IndexedDataMap'' \<and> spelling m = ''FindFromKey'') \<or>
     (spelling c = ''XmlObjMgt'' \<and> spelling m = ''GetReal'') \<or>
     (spelling c = ''BOPAlgo_Tools'' \<and> spelling m = ''PerformCommonBlocks'') \<or>
     (spelling c = ''Transfer_Finder'' \<and> spelling m = ''GetStringAttribute'') \<or>
     (spelling c = ''MoniTool_TypedValue'' \<and> spelling m = ''Internals'') \<or>
     (spelling c = ''MoniTool_AttrList'' \<and> spelling m = ''GetStringAttribute'') \<or>
     (spelling c = ''MoniTool_CaseData'' \<and> spelling m = ''Text'') \<or>
     (spelling c = ''StepData_StepReaderData'' \<and> spelling m = ''ReadEnumParam'') \<or>
     (spelling c = ''XSControl_Vars'') \<or>
     (spelling c = ''MeshVS_DataSource'' \<and> spelling m = ''GetGroup''))"
  unfolding nonconst_reference_def nonconst_reference_pairs_def nonconst_reference_classes_def
    named_def
  apply (simp only: list.set insert_iff empty_iff prod.inject simp_thms)
  apply (simp only: disj_ac)
  done

lemma raw_pointer_callback_src:
  "raw_pointer_callback c m =
    (spelling c = ''Graphic3d_GraduatedTrihedron'' \<and> spelling m = ''CubicAxesCallback'')"
  unfolding raw_pointer_callback_def raw_pointer_pairs_def named_def
  by (simp only: list.set insert_iff empty_iff prod.inject simp_thms)

lemma bit_field_src:
  "bit_field c m =
    (type_spelling (ctype c) = ''MeshVS_TwoColors'' \<or>
     (spelling c = ''Graphic3d_CStructure'' \<and>
      spelling m \<in> set [''IsInfinite'', ''stick'', ''highlight'', ''visible'',
        ''HLRValidation'', ''IsForHighlight'', ''IsMutable'', ''Is2dText'']))"
  unfolding bit_field_def bit_field_class_def bit_field_members_def
  by (rule refl)

lemma using_declaration_src:
  "using_declaration c m = (access_specifier m = PUBLIC \<and> kind m = USING_DECLARATION)"
  unfolding using_declaration_def public_using_declaration_def
  by (rule refl)

lemma stream_type_src:
  "stream_type c m =
    (startswith (type_spelling (result_type m)) ''Standard_OStream'' \<or>
     type_spelling (ctype m) = ''std::ifstream'')"
  unfolding stream_type_def stream_member_def
  by (rule refl)

lemma copy_constructor_src:
  "copy_constructor c m =
    ((spelling c = ''AIS_ViewController'' \<and>
      (spelling m = ''Keys'' \<or> spelling m = ''ChangeKeys'')) \<or>
     (spelling c = ''BRepClass3d_SolidExplorer'' \<and> spelling m = ''GetTree''))"
  unfolding copy_constructor_def copy_constructor_pairs_def named_def
  by (simp only: list.set insert_iff empty_iff prod.inject simp_thms conj_disj_distribL disj_assoc)

lemma lerp_interpolate_src:
  "lerp_interpolate c m =
    (spelling c = ''NCollection_Lerp'' \<and> spelling m = ''Interpolate'' \<and> is_static_method m)"
  unfolding lerp_interpolate_def lerp_pairs_def named_def
  by (simp only: list.set insert_iff empty_iff prod.inject simp_thms conj_assoc)

lemma container_iterator_src:
  "container_iterator c m =
    (spelling c \<in> set [''NCollection_Sequence'', ''NCollection_List''] \<and>
     str_in ''::Iterator'' (displayname m))"
  unfolding container_iterator_def iterator_classes_def
  by (rule refl)

lemma undefined_symbol_src:
  "undefined_symbol c m =
    ((spelling c = ''Geom2dHatch_Hatcher'' \<and> spelling m = ''IsDone'') \<or>
     (spelling c = ''Geom2dAPI_Interpolate'' \<and> spelling m = ''ClearTangents'') \<or>
     (spelling c = ''Geom2dGcc_Lin2dTanObl'' \<and> spelling m = ''IsParallel2'') \<or>
     (spelling c = ''Geom2dInt_Geom2dCurveTool'' \<and> spelling m = ''IsComposite'') \<or>
     (spelling c = ''Geom2dInt_TheCurveLocatorOfTheProjPCurOfGInter'' \<and> spelling m = ''Locate'') \<or>
     (spelling c = ''GeomInt_IntSS'' \<and> spelling m = ''SetTolFixTangents'') \<or>
     (spelling c = ''GeomInt_IntSS'' \<and> spelling m = ''TolFixTangents'') \<or>
     (spelling c = ''GeomAPI_Interpolate'' \<and> spelling m = ''ClearTangents'') \<or>
     (spelling c = ''GeomFill_FunctionGuide'' \<and> spelling m = ''Deriv2T'') \<or>
     (spelling c = ''GeomFill_SweepSectionGenerator'' \<and> spelling m = ''Init'') \<or>
     (spelling c = ''GeomInt_ResConstraintOfMyGradientOfTheComputeLineBezierOfWLApprox''
        \<and> spelling m = ''Error'') \<or>
     (spelling c = ''GeomInt_ResConstraintOfMyGradientbisOfTheComputeLineOfWLApprox''
        \<and> spelling m = ''Error'') \<or>
     (spelling c = ''GeomInt_WLApprox'' \<and> spelling m = ''Perform''))"
  unfolding undefined_symbol_def undefined_symbol_pairs_def named_def
  by (simp only: list.set insert_iff empty_iff prod.inject simp_thms)

lemmas rule_src =
  signature_mismatch_src private_constructor_src nonconst_reference_src
  raw_pointer_callback_src bit_field_src using_declaration_src stream_type_src
  copy_constructor_src lerp_interpolate_src container_iterator_src undefined_symbol_src

lemma fst_if_reject: "fst (if A then (False, out) else R) = (\<not> A \<and> fst R)"
  by simp

lemma snd_if_silent: "snd (if A then (b, out) else R) = (if A then out else snd R)"
  by simp

lemma fst_filter:
  "fst (filterMethodOrProperty c m out) =
     (\<not> (signature_mismatch c m \<or> private_constructor c m \<or> nonconst_reference c m \<or>
         raw_pointer_callback c m \<or> bit_field c m \<or> using_declaration c m \<or>
         stream_type c m \<or> copy_constructor c m \<or> lerp_interpolate c m \<or>
         container_iterator c m \<or> undefined_symbol c m))"
  unfolding filterMethodOrProperty_def rule_src
  by (simp only: fst_if_reject fst_conv de_Morgan_disj conj_assoc simp_thms)

lemma snd_chain:
  "(if a then x else if b then x else if c then x else if d then x else if e1 then x
    else if e2 then x else if f then y else x) =
   (if \<not> (a \<or> b \<or> c \<or> d \<or> e1 \<or> e2) \<and> f then y else x)"
  by simp

lemma snd_filter:
  "snd (filterMethodOrProperty c m out) =
     (if \<not> (signature_mismatch c m \<or> private_constructor c m \<or> nonconst_reference c m \<or>
         raw_pointer_callback c m \<or> bit_field c m) \<and> using_declaration c m
      then out @ [using_declaration_message c m] else out)"
  unfolding filterMethodOrProperty_def rule_src
  apply (simp only: snd_if_silent snd_conv if_cancel)
  apply (rule snd_chain)
  done

subsection \<open>The function in terms of the rules\<close>

lemma excluded_iff:
  "excluded c m =
     (signature_mismatch c m \<or> private_constructor c m \<or> nonconst_reference c m \<or>
      raw_pointer_callback c m \<or> bit_field c m \<or> using_declaration c m \<or>
      stream_type c m \<or> copy_constructor c m \<or> lerp_interpolate c m \<or>
      container_iterator c m \<or> undefined_symbol c m)"
  by (simp add: excluded_def rule_categories_def)

lemma fst_filter_excluded: "fst (filterMethodOrProperty c m out) = (\<not> excluded c m)"
  by (simp only: fst_filter excluded_iff)

lemma admit_by_iff: "admit_by rs c m = (\<not> (\<exists>r \<in> set rs. r c m))"
  by (induction rs) auto

lemma named_append: "named (ps @ qs) c m = (named ps c m \<or> named qs c m)"
  by (auto simp: named_def)

lemma filter_out:
  "filterMethodOrProperty c m out =
     (fst (filterMethodOrProperty c m []), out @ snd (filterMethodOrProperty c m []))"
  by (intro prod_eqI) (simp_all add: fst_filter snd_filter)

subsection \<open>Properties of the filter\<close>

text \<open>
  C1. Default-admit: a member that no exclusion rule matches is admitted, and nothing is
  printed. In particular a member named \<open>Bar\<close> of a class named \<open>Foo\<close> is admitted: no rule
  names that pair, so it is admitted whenever the three rules that do not look at names
  (the bit-field class type, the public using-declaration, the stream types) do not
  match either.
\<close>

theorem default_admit:
  "(\<not> excluded c m \<longrightarrow> filterMethodOrProperty c m out = (True, out)) \<and>
   (spelling c = ''Foo'' \<and> spelling m = ''Bar'' \<and> \<not> bit_field_class c \<and>
    \<not> public_using_declaration m \<and> \<not> stream_member m
      \<longrightarrow> filterMethodOrProperty c m out = (True, out))"
proof (intro conjI impI)
  assume "\<not> excluded c m"
  then show "filterMethodOrProperty c m out = (True, out)"
    by (intro prod_eqI) (simp_all add: fst_filter_excluded snd_filter excluded_iff)
next
  assume a: "spelling c = ''Foo'' \<and> spelling m = ''Bar'' \<and> \<not> bit_field_class c \<and>
    \<not> public_using_declaration m \<and> \<not> stream_member m"
  then have "\<not> excluded c m"
    unfolding excluded_iff signature_mismatch_def private_constructor_def
      nonconst_reference_def raw_pointer_callback_def bit_field_def using_declaration_def
      stream_type_def copy_constructor_def lerp_interpolate_def container_iterator_def
      undefined_symbol_def signature_mismatch_pairs_def private_constructor_pairs_def
      nonconst_reference_pairs_def nonconst_reference_classes_def raw_pointer_pairs_def
      bit_field_members_def copy_constructor_pairs_def lerp_pairs_def iterator_classes_def
      undefined_symbol_pairs_def named_def
    by simp
  then show "filterMethodOrProperty c m out = (True, out)"
    by (intro prod_eqI) (simp_all add: fst_filter_excluded snd_filter excluded_iff)
qed

theorem default_admit_witness:
  "\<not> excluded (example_class ''Foo'') (example_method ''Bar'' ''void'' False) \<and>
   filterMethodOrProperty (example_class ''Foo'') (example_method ''Bar'' ''void'' False) []
     = (True, [])"
proof -
  let ?c = "example_class ''Foo''" and ?m = "example_method ''Bar'' ''void'' False"
  have h: "\<not> excluded ?c ?m"
    unfolding excluded_iff rule_src by (simp add: example_class_def example_method_def)
  with default_admit [of ?c ?m "[]"] show ?thesis by simp
qed

text \<open>
  C2. Every literal (class, member) pair of the exact-pair rules is rejected: when the
  spellings of the class and of the member are one of the pairs of \<open>exact_pairs\<close>, the
  function returns false; for \<open>NCollection_Lerp::Interpolate\<close> the member has to be a
  static method as well.
\<close>

theorem exact_pairs_rejected:
  assumes "(spelling c, spelling m) \<in> set exact_pairs"
    and "spelling c = ''NCollection_Lerp'' \<and> spelling m = ''Interpolate''
           \<longrightarrow> is_static_method m"
  shows "fst (filterMethodOrProperty c m out) = False"
proof -
  from assms(1) have "named exact_pairs c m"
    by (simp only: named_def)
  then have "signature_mismatch c m \<or> private_constructor c m \<or>
      named nonconst_reference_pairs c m \<or> raw_pointer_callback c m \<or>
      copy_constructor c m \<or> named lerp_pairs c m \<or> undefined_symbol c m"
    by (simp only: exact_pairs_def named_append signature_mismatch_def
        private_constructor_def raw_pointer_callback_def copy_constructor_def
        undefined_symbol_def)
  moreover have "lerp_interpolate c m" if "named lerp_pairs c m"
    using that assms(2) by (simp add: lerp_interpolate_def lerp_pairs_def named_def)
  ultimately have "excluded c m"
    unfolding excluded_iff nonconst_reference_def by blast
  then show ?thesis
    by (simp only: fst_filter_excluded simp_thms)
qed

theorem exact_pairs_rejected_witness:
  "(''MeshVS_DataSource'', ''GetGeom'') \<in> set exact_pairs \<and>
   fst (filterMethodOrProperty (example_class ''MeshVS_DataSource'')
          (example_method ''GetGeom'' ''Standard_Boolean'' False) []) = False \<and>
   (''Geom2dHatch_Hatcher'', ''IsDone'') \<in> set exact_pairs \<and>
   fst (filterMethodOrProperty (example_class ''Geom2dHatch_Hatcher'')
          (example_method ''IsDone'' ''Standard_Boolean'' False) []) = False \<and>
   (''NCollection_Lerp'', ''Interpolate'') \<in> set exact_pairs \<and>
   fst (filterMethodOrProperty (example_class ''NCollection_Lerp'')
          (example_method ''Interpolate'' ''gp_Trsf'' True) []) = False"
proof -
  have p1: "(''MeshVS_DataSource'', ''GetGeom'') \<in> set exact_pairs"
    by (simp add: exact_pairs_def signature_mismatch_pairs_def)
  have p2: "(''Geom2dHatch_Hatcher'', ''IsDone'') \<in> set exact_pairs"
    by (simp add: exact_pairs_def undefined_symbol_pairs_def)
  have p3: "(''NCollection_Lerp'', ''Interpolate'') \<in> set exact_pairs"
    by (simp add: exact_pairs_def lerp_pairs_def)
  have r1: "fst (filterMethodOrProperty (example_class ''MeshVS_DataSource'')
          (example_method ''GetGeom'' ''Standard_Boolean'' False) []) = False"
    using p1 by (intro exact_pairs_rejected) (simp_all add: example_class_def example_method_def)
  have r2: "fst (filterMethodOrProperty (example_class ''Geom2dHatch_Hatcher'')
          (example_method ''IsDone'' ''Standard_Boolean'' False) []) = False"
    using p2 by (intro exact_pairs_rejected) (simp_all add: example_class_def example_method_def)
  have r3: "fst (filterMethodOrProperty (example_class ''NCollection_Lerp'')
          (example_method ''Interpolate'' ''gp_Trsf'' True) []) = False"
    using p3 by (intro exact_pairs_rejected) (simp_all add: example_class_def example_method_def)
  from p1 p2 p3 r1 r2 r3 show ?thesis by blast
qed

text \<open>
  The rules overlap: a method of \<open>Resource_Unicode\<close> that returns an output stream matches
  the rule of the non-const references and the rule of the stream types.
\<close>

theorem rules_overlap_counterexample:
  "nonconst_reference (example_class ''Resource_Unicode'')
     (example_method ''Dump'' ''Standard_OStream &'' False) \<and>
   stream_type (example_class ''Resource_Unicode'')
     (example_method ''Dump'' ''Standard_OStream &'' False)"
  by (simp add: nonconst_reference_def nonconst_reference_classes_def stream_type_def
      stream_member_def example_class_def example_method_def)

text \<open>
  C3, amended. A member may match several rules; as every rule rejects, the boolean
  result does not depend on the order of the rule categories: the first-match evaluation
  of any permutation of the eleven categories returns what the function returns.
\<close>

theorem reorder_invariant:
  assumes "mset rs = mset rule_categories"
  shows "admit_by rs c m = fst (filterMethodOrProperty c m out)"
proof -
  from assms have "set rs = set rule_categories"
    by (rule mset_eq_setD)
  then have "admit_by rs c m = (\<not> excluded c m)"
    by (simp only: admit_by_iff excluded_def)
  then show ?thesis
    by (simp only: fst_filter_excluded)
qed

theorem reorder_invariant_witness:
  "mset (rev rule_categories) = mset rule_categories \<and>
   admit_by (rev rule_categories) (example_class ''Resource_Unicode'')
     (example_method ''Dump'' ''Standard_OStream &'' False)
   = fst (filterMethodOrProperty (example_class ''Resource_Unicode'')
       (example_method ''Dump'' ''Standard_OStream &'' False) [])"
  using reorder_invariant [of "rev rule_categories" "example_class ''Resource_Unicode''"
      "example_method ''Dump'' ''Standard_OStream &'' False" "[]"]
  by simp

text \<open>
  A public using-declaration in \<open>NCollection_List\<close> whose display name does not contain
  \<open>::Iterator\<close> is rejected all the same.
\<close>

theorem container_member_counterexample:
  "spelling (example_class ''NCollection_List'') = ''NCollection_List'' \<and>
   \<not> str_in ''::Iterator'' (displayname (example_using ''begin'')) \<and>
   fst (filterMethodOrProperty (example_class ''NCollection_List'') (example_using ''begin'') [])
     = False"
  unfolding fst_filter rule_src
  by (simp add: example_class_def example_using_def)

text \<open>
  C4, amended. A member of \<open>NCollection_Sequence\<close> or \<open>NCollection_List\<close> whose display
  name contains \<open>::Iterator\<close> is rejected. A member of these classes without the marker is
  admitted unless one of the rules that do not look at names matches: the class type
  \<open>MeshVS_TwoColors\<close>, a public using-declaration, a stream type.
\<close>

theorem container_members:
  assumes "spelling c = ''NCollection_Sequence'' \<or> spelling c = ''NCollection_List''"
  shows "fst (filterMethodOrProperty c m out) =
    (\<not> str_in ''::Iterator'' (displayname m) \<and> \<not> bit_field_class c \<and>
     \<not> public_using_declaration m \<and> \<not> stream_member m)"
  using assms
  unfolding fst_filter rule_src bit_field_class_def public_using_declaration_def
    stream_member_def
  by (elim disjE) (simp_all, blast+)

theorem container_members_witness:
  "fst (filterMethodOrProperty (example_class ''NCollection_Sequence'')
     ((example_method ''InsertAfter'' ''void'' False)
        \<lparr>displayname := ''InsertAfter(NCollection_Sequence::Iterator &, const TheItemType &)''\<rparr>)
     []) = False \<and>
   fst (filterMethodOrProperty (example_class ''NCollection_List'')
     (example_method ''Clear'' ''void'' False) []) = True"
proof -
  have "fst (filterMethodOrProperty (example_class ''NCollection_Sequence'')
     ((example_method ''InsertAfter'' ''void'' False)
        \<lparr>displayname := ''InsertAfter(NCollection_Sequence::Iterator &, const TheItemType &)''\<rparr>)
     []) = False"
    by (subst container_members)
      (simp_all add: example_class_def example_method_def bit_field_class_def
        public_using_declaration_def stream_member_def)
  moreover have "fst (filterMethodOrProperty (example_class ''NCollection_List'')
     (example_method ''Clear'' ''void'' False) []) = True"
    by (subst container_members)
      (simp_all add: example_class_def example_method_def bit_field_class_def
        public_using_declaration_def stream_member_def)
  ultimately show ?thesis by blast
qed

text \<open>
  A method of \<open>Graphic3d_CStructure\<close> that is none of the eight bit-fields and returns an
  output stream is rejected.
\<close>

theorem bit_field_counterexample:
  "spelling (example_class ''Graphic3d_CStructure'') = ''Graphic3d_CStructure'' \<and>
   spelling (example_method ''Print'' ''Standard_OStream &'' False) \<notin> set bit_field_members \<and>
   fst (filterMethodOrProperty (example_class ''Graphic3d_CStructure'')
     (example_method ''Print'' ''Standard_OStream &'' False) []) = False"
  unfolding fst_filter rule_src bit_field_members_def
  by (simp add: example_class_def example_method_def)

text \<open>
  C5, amended. Every member of a class whose type is spelled \<open>MeshVS_TwoColors\<close> is
  rejected, whatever its name. In the class \<open>Graphic3d_CStructure\<close> the eight bit-field
  members are rejected; any other member of that class is admitted unless one of the
  rules that do not look at names matches (the class type \<open>MeshVS_TwoColors\<close>, a public
  using-declaration, a stream type).
\<close>

theorem bit_field_rule:
  "(type_spelling (ctype c) = ''MeshVS_TwoColors''
      \<longrightarrow> fst (filterMethodOrProperty c m out) = False) \<and>
   (spelling c = ''Graphic3d_CStructure''
      \<longrightarrow> fst (filterMethodOrProperty c m out) =
          (spelling m \<notin> set bit_field_members \<and> \<not> bit_field_class c \<and>
           \<not> public_using_declaration m \<and> \<not> stream_member m))"
proof (intro conjI impI)
  assume "type_spelling (ctype c) = ''MeshVS_TwoColors''"
  then have "bit_field c m"
    by (simp add: bit_field_def bit_field_class_def)
  then show "fst (filterMethodOrProperty c m out) = False"
    by (simp only: fst_filter simp_thms)
next
  assume "spelling c = ''Graphic3d_CStructure''"
  then show "fst (filterMethodOrProperty c m out) =
          (spelling m \<notin> set bit_field_members \<and> \<not> bit_field_class c \<and>
           \<not> public_using_declaration m \<and> \<not> stream_member m)"
    unfolding fst_filter rule_src bit_field_class_def public_using_declaration_def
      stream_member_def bit_field_members_def
    by (simp, blast)
qed

theorem bit_field_rule_witness:
  "fst (filterMethodOrProperty (example_class ''MeshVS_TwoColors'')
     (example_method ''anything'' ''void'' False) []) = False \<and>
   fst (filterMethodOrProperty (example_class ''Graphic3d_CStructure'')
     (example_method ''IsInfinite'' ''unsigned int'' False) []) = False \<and>
   fst (filterMethodOrProperty (example_class ''Graphic3d_CStructure'')
     (example_method ''Clear'' ''void'' False) []) = True"
proof -
  have t: "type_spelling (ctype (example_class ''MeshVS_TwoColors'')) = ''MeshVS_TwoColors''"
    and g: "spelling (example_class ''Graphic3d_CStructure'') = ''Graphic3d_CStructure''"
    by (simp_all add: example_class_def)
  from t bit_field_rule [of "example_class ''MeshVS_TwoColors''" _ "[]"]
  have "fst (filterMethodOrProperty (example_class ''MeshVS_TwoColors'')
     (example_method ''anything'' ''void'' False) []) = False"
    by blast
  moreover from g bit_field_rule [of "example_class ''Graphic3d_CStructure''"
      "example_method ''IsInfinite'' ''unsigned int'' False" "[]"]
  have "fst (filterMethodOrProperty (example_class ''Graphic3d_CStructure'')
     (example_method ''IsInfinite'' ''unsigned int'' False) []) = False"
    by (simp add: example_method_def bit_field_members_def)
  moreover from g bit_field_rule [of "example_class ''Graphic3d_CStructure''"
      "example_method ''Clear'' ''void'' False" "[]"]
  have "fst (filterMethodOrProperty (example_class ''Graphic3d_CStructure'')
     (example_method ''Clear'' ''void'' False) []) = True"
    by (simp add: example_class_def example_method_def bit_field_members_def
        bit_field_class_def public_using_declaration_def stream_member_def)
  ultimately show ?thesis by blast
qed

text \<open>
  A public using-declaration in \<open>Resource_Unicode\<close> is rejected by the rule of the
  non-const references, which comes first and returns before the \<^verbatim>\<open>print\<close>: no
  diagnostic line is written.
\<close>

theorem using_declaration_counterexample:
  "access_specifier (example_using ''ConvertFormatToUnicode'') = PUBLIC \<and>
   kind (example_using ''ConvertFormatToUnicode'') = USING_DECLARATION \<and>
   filterMethodOrProperty (example_class ''Resource_Unicode'')
     (example_using ''ConvertFormatToUnicode'') [] = (False, [])"
proof -
  have "nonconst_reference (example_class ''Resource_Unicode'')
      (example_using ''ConvertFormatToUnicode'')"
    by (simp add: nonconst_reference_def nonconst_reference_classes_def example_class_def)
  then have "filterMethodOrProperty (example_class ''Resource_Unicode'')
     (example_using ''ConvertFormatToUnicode'') [] = (False, [])"
    by (intro prod_eqI) (simp_all add: fst_filter snd_filter)
  then show ?thesis
    by (simp add: example_using_def)
qed

text \<open>
  C6, amended. A public using-declaration is always rejected. One diagnostic line, which
  names the class and the member, is appended to the output when none of the rules
  evaluated before the using-declaration rule matches (signature mismatch, private
  constructor, non-const reference, raw pointer, bit-field); when one of them matches,
  the member is rejected without a diagnostic. In every other case the output is left as
  it was: no other rule prints.
\<close>

theorem using_declaration_diagnostic:
  "(access_specifier m = PUBLIC \<and> kind m = USING_DECLARATION
      \<longrightarrow> fst (filterMethodOrProperty c m out) = False) \<and>
   snd (filterMethodOrProperty c m out) =
     (if access_specifier m = PUBLIC \<and> kind m = USING_DECLARATION \<and>
         \<not> (signature_mismatch c m \<or> private_constructor c m \<or> nonconst_reference c m \<or>
            raw_pointer_callback c m \<or> bit_field c m)
      then out @ [using_declaration_message c m] else out) \<and>
   str_in (spelling c) (using_declaration_message c m) \<and>
   str_in (spelling m) (using_declaration_message c m)"
proof (intro conjI impI)
  assume "access_specifier m = PUBLIC \<and> kind m = USING_DECLARATION"
  then have "using_declaration c m"
    by (simp add: using_declaration_def public_using_declaration_def)
  then show "fst (filterMethodOrProperty c m out) = False"
    by (simp only: fst_filter simp_thms)
next
  show "snd (filterMethodOrProperty c m out) =
     (if access_specifier m = PUBLIC \<and> kind m = USING_DECLARATION \<and>
         \<not> (signature_mismatch c m \<or> private_constructor c m \<or> nonconst_reference c m \<or>
            raw_pointer_callback c m \<or> bit_field c m)
      then out @ [using_declaration_message c m] else out)"
    by (simp add: snd_filter using_declaration_def public_using_declaration_def)
next
  have "using_declaration_message c m =
      ''Using declarations are not supported! ('' @ spelling c @ ('', '' @ spelling m @ '')'')"
    by (simp add: using_declaration_message_def)
  then show "str_in (spelling c) (using_declaration_message c m)"
    unfolding str_in_iff by blast
next
  have "using_declaration_message c m =
      (''Using declarations are not supported! ('' @ spelling c @ '', '') @ spelling m @ '')''"
    by (simp add: using_declaration_message_def)
  then show "str_in (spelling m) (using_declaration_message c m)"
    unfolding str_in_iff by blast
qed

theorem using_declaration_diagnostic_witness:
  "filterMethodOrProperty (example_class ''Foo'') (example_using ''Bar'') []
     = (False, [''Using declarations are not supported! (Foo, Bar)''])"
proof -
  let ?c = "example_class ''Foo''" and ?m = "example_using ''Bar''"
  have u: "access_specifier ?m = PUBLIC \<and> kind ?m = USING_DECLARATION"
    by (simp add: example_using_def)
  have n: "\<not> (signature_mismatch ?c ?m \<or> private_constructor ?c ?m \<or>
      nonconst_reference ?c ?m \<or> raw_pointer_callback ?c ?m \<or> bit_field ?c ?m)"
    unfolding rule_src by (simp add: example_class_def example_using_def)
  have msg: "using_declaration_message ?c ?m
      = ''Using declarations are not supported! (Foo, Bar)''"
    by (simp add: using_declaration_message_def example_class_def example_using_def)
  from using_declaration_diagnostic [of ?m ?c "[]"] u n msg
  have "fst (filterMethodOrProperty ?c ?m []) = False"
    and "snd (filterMethodOrProperty ?c ?m [])
      = [''Using declarations are not supported! (Foo, Bar)'']"
    by simp_all
  then show ?thesis
    by (intro prod_eqI) simp_all
qed

text \<open>
  C7. A member whose result type is spelled with the prefix \<open>Standard_OStream\<close>, or whose
  type is spelled \<open>std::ifstream\<close>, is rejected, whatever the class and whatever the
  member's name.
\<close>

theorem stream_members_rejected:
  assumes "startswith (type_spelling (result_type m)) ''Standard_OStream'' \<or>
    type_spelling (ctype m) = ''std::ifstream''"
  shows "fst (filterMethodOrProperty c m out) = False"
proof -
  from assms have "stream_type c m"
    by (simp only: stream_type_def stream_member_def)
  then show ?thesis
    by (simp only: fst_filter simp_thms)
qed

theorem stream_members_rejected_witness:
  "startswith ''Standard_OStream &'' ''Standard_OStream'' \<and>
   fst (filterMethodOrProperty (example_class ''Foo'')
     (example_method ''Print'' ''Standard_OStream &'' False) []) = False \<and>
   fst (filterMethodOrProperty (example_class ''Foo'')
     ((example_method ''myFile'' ''void'' False)
        \<lparr>kind := FIELD_DECL, ctype := \<lparr>type_spelling = ''std::ifstream''\<rparr>\<rparr>) []) = False"
proof -
  have s: "startswith ''Standard_OStream &'' ''Standard_OStream''"
    by simp
  then have "fst (filterMethodOrProperty (example_class ''Foo'')
     (example_method ''Print'' ''Standard_OStream &'' False) []) = False"
    by (intro stream_members_rejected) (simp add: example_method_def)
  moreover have "fst (filterMethodOrProperty (example_class ''Foo'')
     ((example_method ''myFile'' ''void'' False)
        \<lparr>kind := FIELD_DECL, ctype := \<lparr>type_spelling = ''std::ifstream''\<rparr>\<rparr>) []) = False"
    by (intro stream_members_rejected) (simp add: example_method_def)
  ultimately show ?thesis
    using s by blast
qed

text \<open>
  Two successive calls on a public using-declaration in \<open>XSControl_Vars\<close>: the rule of the
  non-const references rejects it in both calls before the \<^verbatim>\<open>print\<close> is reached, so
  neither call writes the diagnostic and the output is still empty after the second.
\<close>

theorem admit_twice_counterexample:
  "access_specifier (example_using ''Set'') = PUBLIC \<and>
   kind (example_using ''Set'') = USING_DECLARATION \<and>
   filterMethodOrProperty (example_class ''XSControl_Vars'') (example_using ''Set'') []
     = (False, []) \<and>
   filterMethodOrProperty (example_class ''XSControl_Vars'') (example_using ''Set'')
     (snd (filterMethodOrProperty (example_class ''XSControl_Vars'') (example_using ''Set'') []))
     = (False, [])"
proof -
  have "nonconst_reference (example_class ''XSControl_Vars'') (example_using ''Set'')"
    by (simp add: nonconst_reference_def nonconst_reference_classes_def example_class_def)
  then have r: "filterMethodOrProperty (example_class ''XSControl_Vars'')
     (example_using ''Set'') [] = (False, [])"
    by (intro prod_eqI) (simp_all add: fst_filter snd_filter)
  then show ?thesis
    by (simp add: example_using_def)
qed

text \<open>
  C8, amended. Two successive calls on the same class and member return the same
  boolean, and nothing remembers the first call: the second call appends what the first
  one appended. For a public using-declaration that none of the rules evaluated before
  the using-declaration rule matches, each call prints the diagnostic, so the output
  holds the line twice after the two calls; in every other case, also for a public
  using-declaration that an earlier rule rejects, neither call prints and the output is
  unchanged.
\<close>

theorem admit_twice:
  "fst (filterMethodOrProperty c m (snd (filterMethodOrProperty c m out)))
     = fst (filterMethodOrProperty c m out) \<and>
   snd (filterMethodOrProperty c m out) =
     (if access_specifier m = PUBLIC \<and> kind m = USING_DECLARATION \<and>
         \<not> (signature_mismatch c m \<or> private_constructor c m \<or> nonconst_reference c m \<or>
            raw_pointer_callback c m \<or> bit_field c m)
      then out @ [using_declaration_message c m] else out) \<and>
   snd (filterMethodOrProperty c m (snd (filterMethodOrProperty c m out))) =
     (if access_specifier m = PUBLIC \<and> kind m = USING_DECLARATION \<and>
         \<not> (signature_mismatch c m \<or> private_constructor c m \<or> nonconst_reference c m \<or>
            raw_pointer_callback c m \<or> bit_field c m)
      then out @ [using_declaration_message c m, using_declaration_message c m] else out)"
proof (intro conjI)
  show "fst (filterMethodOrProperty c m (snd (filterMethodOrProperty c m out)))
     = fst (filterMethodOrProperty c m out)"
    by (simp only: fst_filter)
next
  show "snd (filterMethodOrProperty c m out) =
     (if access_specifier m = PUBLIC \<and> kind m = USING_DECLARATION \<and>
         \<not> (signature_mismatch c m \<or> private_constructor c m \<or> nonconst_reference c m \<or>
            raw_pointer_callback c m \<or> bit_field c m)
      then out @ [using_declaration_message c m] else out)"
    by (simp add: snd_filter using_declaration_def public_using_declaration_def)
next
  show "snd (filterMethodOrProperty c m (snd (filterMethodOrProperty c m out))) =
     (if access_specifier m = PUBLIC \<and> kind m = USING_DECLARATION \<and>
         \<not> (signature_mismatch c m \<or> private_constructor c m \<or> nonconst_reference c m \<or>
            raw_pointer_callback c m \<or> bit_field c m)
      then out @ [using_declaration_message c m, using_declaration_message c m] else out)"
    by (simp add: snd_filter using_declaration_def public_using_declaration_def)
qed

theorem admit_twice_witness:
  "filterMethodOrProperty (example_class ''Foo'') (example_using ''Bar'') []
     = (False, [''Using declarations are not supported! (Foo, Bar)'']) \<and>
   filterMethodOrProperty (example_class ''Foo'') (example_using ''Bar'')
     (snd (filterMethodOrProperty (example_class ''Foo'') (example_using ''Bar'') []))
     = (False, [''Using declarations are not supported! (Foo, Bar)'',
                ''Using declarations are not supported! (Foo, Bar)''])"
proof -
  let ?c = "example_class ''Foo''" and ?m = "example_using ''Bar''"
  have u: "access_specifier ?m = PUBLIC \<and> kind ?m = USING_DECLARATION"
    by (simp add: example_using_def)
  have n: "\<not> (signature_mismatch ?c ?m \<or> private_constructor ?c ?m \<or>
      nonconst_reference ?c ?m \<or> raw_pointer_callback ?c ?m \<or> bit_field ?c ?m)"
    unfolding rule_src by (simp add: example_class_def example_using_def)
  have msg: "using_declaration_message ?c ?m
      = ''Using declarations are not supported! (Foo, Bar)''"
    by (simp add: using_declaration_message_def example_class_def example_using_def)
  have f: "fst (filterMethodOrProperty ?c ?m []) = False"
    unfolding fst_filter using_declaration_def public_using_declaration_def
    using u by simp
  have cnd: "access_specifier ?m = PUBLIC \<and> kind ?m = USING_DECLARATION \<and>
      \<not> (signature_mismatch ?c ?m \<or> private_constructor ?c ?m \<or>
         nonconst_reference ?c ?m \<or> raw_pointer_callback ?c ?m \<or> bit_field ?c ?m)"
    using u n by blast
  note t = admit_twice [of ?c ?m "[]", unfolded if_P [OF cnd]]
  have e: "fst (filterMethodOrProperty ?c ?m (snd (filterMethodOrProperty ?c ?m [])))
      = fst (filterMethodOrProperty ?c ?m [])"
    by (rule t [THEN conjunct1])
  have s1: "snd (filterMethodOrProperty ?c ?m []) = [] @ [using_declaration_message ?c ?m]"
    by (rule t [THEN conjunct2, THEN conjunct1])
  have s2: "snd (filterMethodOrProperty ?c ?m (snd (filterMethodOrProperty ?c ?m [])))
      = [] @ [using_declaration_message ?c ?m, using_declaration_message ?c ?m]"
    by (rule t [THEN conjunct2, THEN conjunct2])
  have "filterMethodOrProperty ?c ?m [] = (False, [using_declaration_message ?c ?m])"
    by (intro prod_eqI) (simp_all only: f s1 fst_conv snd_conv append_Nil)
  moreover
  have "filterMethodOrProperty ?c ?m (snd (filterMethodOrProperty ?c ?m []))
      = (False, [using_declaration_message ?c ?m, using_declaration_message ?c ?m])"
    by (intro prod_eqI) (simp_all only: e f s2 fst_conv snd_conv append_Nil)
  ultimately show ?thesis
    by (simp only: msg simp_thms)
qed

text \<open>
  C9. The function is total and its decision depends on the class and the member only:
  for every class, member and earlier output it returns a boolean that does not depend on
  the output, it keeps the earlier output, and what it appends is either nothing or the
  single using-declaration diagnostic, the latter only for a public using-declaration
  that it rejects. The source has no \<^verbatim>\<open>raise\<close>, no loop and no call besides
  \<^verbatim>\<open>startswith\<close>, \<^verbatim>\<open>is_static_method\<close> and \<^verbatim>\<open>print\<close>.
\<close>

theorem total_and_pure:
  "filterMethodOrProperty c m out =
     (fst (filterMethodOrProperty c m []), out @ snd (filterMethodOrProperty c m [])) \<and>
   (snd (filterMethodOrProperty c m []) = [] \<or>
    snd (filterMethodOrProperty c m []) = [using_declaration_message c m] \<and>
    access_specifier m = PUBLIC \<and> kind m = USING_DECLARATION \<and>
    fst (filterMethodOrProperty c m []) = False)"
proof (intro conjI)
  show "filterMethodOrProperty c m out =
     (fst (filterMethodOrProperty c m []), out @ snd (filterMethodOrProperty c m []))"
    by (rule filter_out)
next
  show "snd (filterMethodOrProperty c m []) = [] \<or>
    snd (filterMethodOrProperty c m []) = [using_declaration_message c m] \<and>
    access_specifier m = PUBLIC \<and> kind m = USING_DECLARATION \<and>
    fst (filterMethodOrProperty c m []) = False"
    by (simp add: snd_filter fst_filter using_declaration_def public_using_declaration_def)
qed

theorem total_and_pure_witness:
  "filterMethodOrProperty (example_class ''Foo'') (example_method ''Bar'' ''void'' False)
     [''earlier output'']
   = (fst (filterMethodOrProperty (example_class ''Foo'')
            (example_method ''Bar'' ''void'' False) []),
      [''earlier output''] @ snd (filterMethodOrProperty (example_class ''Foo'')
            (example_method ''Bar'' ''void'' False) []))"
  using total_and_pure [of "example_class ''Foo''" "example_method ''Bar'' ''void'' False"
      "[''earlier output'']"]
  by blast

text \<open>
  C10. Every member of the class \<open>Resource_Unicode\<close> and every member of the class
  \<open>XSControl_Vars\<close> is rejected, whatever the member's name: these two entries of the
  non-const reference rule test the class alone.
\<close>

theorem whole_class_rejected:
  assumes "spelling c = ''Resource_Unicode'' \<or> spelling c = ''XSControl_Vars''"
  shows "fst (filterMethodOrProperty c m out) = False"
proof -
  from assms have "nonconst_reference c m"
    by (auto simp: nonconst_reference_def nonconst_reference_classes_def)
  then show ?thesis
    by (simp only: fst_filter simp_thms)
qed

theorem whole_class_rejected_witness:
  "fst (filterMethodOrProperty (example_class ''Resource_Unicode'')
     (example_method ''ReadFormat'' ''void'' True) []) = False \<and>
   fst (filterMethodOrProperty (example_class ''XSControl_Vars'')
     (example_method ''Set'' ''void'' False) []) = False"
proof -
  have "fst (filterMethodOrProperty (example_class ''Resource_Unicode'')
     (example_method ''ReadFormat'' ''void'' True) []) = False"
    by (intro whole_class_rejected) (simp add: example_class_def)
  moreover have "fst (filterMethodOrProperty (example_class ''XSControl_Vars'')
     (example_method ''Set'' ''void'' False) []) = False"
    by (intro whole_class_rejected) (simp add: example_class_def)
  ultimately show ?thesis by blast
qed

end
